theory Spec2Isabelle
  imports Complex_Main
begin

section \<open>Strings\<close>

text \<open>
  A Python \<open>str\<close> is a sequence of Unicode code points, modelled as a list of natural
  numbers; \<open>u\<close> turns an ASCII literal into such a list. \<open>str.strip()\<close> removes the
  leading and trailing characters for which \<open>str.isspace\<close> holds: the code points
  9..13, 28..32, U+0085, U+00A0, U+1680, U+2000..U+200A, U+2028, U+2029, U+202F, U+205F
  and U+3000.
\<close>

type_synonym ustring = "nat list"

definition u :: "string \<Rightarrow> ustring" where
  "u s = map of_char s"

definition isspace :: "nat \<Rightarrow> bool" where
  "isspace n =
     ((9 \<le> n \<and> n \<le> 13) \<or> (28 \<le> n \<and> n \<le> 32) \<or> n = 133 \<or> n = 160 \<or> n = 5760 \<or>
      (8192 \<le> n \<and> n \<le> 8202) \<or> n = 8232 \<or> n = 8233 \<or> n = 8239 \<or> n = 8287 \<or>
      n = 12288)"

definition strip :: "ustring \<Rightarrow> ustring" where
  "strip s = rev (dropWhile isspace (rev (dropWhile isspace s)))"

text \<open>\<open>str.replace(",", ".")\<close>: every comma (44) becomes a dot (46).\<close>

definition replace_comma :: "ustring \<Rightarrow> ustring" where
  "replace_comma s = map (\<lambda>c. if c = 44 then 46 else c) s"

text \<open>
  \<open>str.lower()\<close> follows the Unicode character database. It is a parameter \<open>lower\<close>
  of every function below that calls it. For concrete inputs, \<open>latin1_lower\<close> is what
  \<open>str.lower()\<close> does on strings of code points below 256: \<open>A\<close>..\<open>Z\<close> and the
  capital letters U+00C0..U+00DE, the multiplication sign U+00D7 apart, move up by 32.
\<close>

definition latin1_lower :: "ustring \<Rightarrow> ustring" where
  "latin1_lower s =
     map (\<lambda>n. if (65 \<le> n \<and> n \<le> 90) \<or> (192 \<le> n \<and> n \<le> 222 \<and> n \<noteq> 215) then n + 32 else n) s"

section \<open>The enrichment pipeline: \<^verbatim>\<open>geocode_events.py\<close>\<close>

subsection \<open>Values and \<open>clean_number\<close>\<close>

text \<open>
  The type \<open>'f\<close> stands for the Python floats other than \<open>NaN\<close>; the model never
  computes with them. An absent value, \<open>None\<close> or \<open>NaN\<close>, is \<open>None\<close> of an
  option type, as pandas treats the two alike.

  A cell is what pandas reads from a spreadsheet or a database: a missing value
  (\<open>None\<close>, \<open>NaN\<close>, \<open>NaT\<close>: what \<open>pd.isna\<close> accepts), a string, an integer
  (a \<open>bool\<close> is one), a float, or a scalar of another type (a timestamp, say). A
  value passed to \<open>clean_number\<close> is a cell or, outside the tables of this program, a
  list or array of two or more elements.
\<close>

datatype 'f cell = Missing | Str ustring | PyInt int | PyFloat 'f | Other

datatype 'f pyval = Cell "'f cell" | Several

datatype py_error = FileNotFoundError | ValueError

text \<open>
  \<open>float(s)\<close> on a string and \<open>float(i)\<close> on an integer belong to Python; they are
  the parameters \<open>float_str\<close> and \<open>float_int\<close>, which return \<open>None\<close> where
  \<open>float\<close> raises (\<open>ValueError\<close> on a string that is no number, \<open>OverflowError\<close>
  on an integer too large) or returns \<open>NaN\<close>. The \<open>try\<close>/\<open>except Exception\<close> of the source turns every
  raise of \<open>float(val)\<close> into the result \<open>None\<close>. The test
  \<open>pd.isna(val) or val == ""\<close> stands before the \<open>try\<close>: on a list or array of two
  or more elements \<open>pd.isna\<close> returns an array, whose truth value raises \<open>ValueError\<close>.
\<close>

fun clean_number ::
  "(ustring \<Rightarrow> 'f option) \<Rightarrow> (int \<Rightarrow> 'f option) \<Rightarrow> 'f pyval \<Rightarrow> py_error + 'f option" where
  "clean_number float_str float_int Several = Inl ValueError"
| "clean_number float_str float_int (Cell Missing) = Inr None"
| "clean_number float_str float_int (Cell (Str s)) =
     Inr (if s = [] then None else float_str (replace_comma (strip s)))"
| "clean_number float_str float_int (Cell (PyInt i)) = Inr (float_int i)"
| "clean_number float_str float_int (Cell (PyFloat x)) = Inr (Some x)"
| "clean_number float_str float_int (Cell Other) = Inr None"

subsection \<open>Rows, cache and statistics\<close>

record 'f raw_row =
  raw_Latitude :: "'f cell"
  raw_Longitude :: "'f cell"
  raw_Location :: "'f cell"

record 'f row =
  Latitude :: "'f option"
  Longitude :: "'f option"
  Location :: "'f cell"

type_synonym 'f coords = "'f option \<times> 'f option"

record stats =
  rows_total :: nat
  rows_with_missing :: nat
  cache_hits :: nat
  api_queries :: nat
  locations_geocoded :: nat
  locations_unresolved :: nat

record 'f ctx =
  geo_cache :: "ustring \<rightharpoonup> 'f coords"
  stats :: stats

text \<open>
  The geocoding service is external: \<open>geocode(query)\<close> returns a location, returns
  \<open>None\<close> (no match, or retries exhausted inside the rate limiter), or raises.
\<close>

datatype 'f geo_response = Found 'f 'f | NoMatch | Raised

type_synonym 'f geocoder = "ustring \<Rightarrow> 'f geo_response"

definition COUNTRY_SUFFIX :: ustring where
  "COUNTRY_SUFFIX = u '', Sweden''"

text \<open>\<open>pd.notna(lat) and pd.notna(lon)\<close>, and its negation used by \<open>missing_mask\<close>.\<close>

definition has_coords :: "'f row \<Rightarrow> bool" where
  "has_coords r = (Latitude r \<noteq> None \<and> Longitude r \<noteq> None)"

definition missing :: "'f row \<Rightarrow> bool" where
  "missing r = (Latitude r = None \<or> Longitude r = None)"

text \<open>\<open>isinstance(place, str) and place.strip()\<close>: the usable place name, if any.\<close>

fun usable_place :: "'f cell \<Rightarrow> ustring option" where
  "usable_place (Str p) = (if strip p = [] then None else Some p)"
| "usable_place _ = None"

text \<open>\<open>key = place.strip().lower()\<close>\<close>

definition cache_key :: "(ustring \<Rightarrow> ustring) \<Rightarrow> ustring \<Rightarrow> ustring" where
  "cache_key lower place = lower (strip place)"

text \<open>
  \<open>try: loc = geocode(query) except Exception: loc = None\<close>
\<close>

fun try_geocode :: "'f geocoder \<Rightarrow> ustring \<Rightarrow> ('f \<times> 'f) option" where
  "try_geocode geocode query =
     (case geocode query of Found la lo \<Rightarrow> Some (la, lo) | NoMatch \<Rightarrow> None | Raised \<Rightarrow> None)"

text \<open>
  \<open>fill_lat_lon\<close> reads and updates the enclosing \<open>geo_cache\<close> and \<open>stats\<close>; the
  model passes them in and returns them updated. The progress print has no effect on
  either and is left out.
\<close>

definition fill_lat_lon ::
  "(ustring \<Rightarrow> ustring) \<Rightarrow> 'f geocoder \<Rightarrow> 'f ctx \<Rightarrow> 'f row \<Rightarrow> 'f coords \<times> 'f ctx" where
  "fill_lat_lon lower geocode c r =
     (let lat = Latitude r; lon = Longitude r; place = Location r in
      if lat \<noteq> None \<and> lon \<noteq> None then ((lat, lon), c)
      else case usable_place place of
        None \<Rightarrow> ((lat, lon), c)
      | Some p \<Rightarrow>
          (let key = cache_key lower p in
           case geo_cache c key of
             Some res \<Rightarrow>
               (res, c\<lparr>stats := (stats c)\<lparr>cache_hits := cache_hits (stats c) + 1\<rparr>\<rparr>)
           | None \<Rightarrow>
               (let s1 = (stats c)\<lparr>api_queries := api_queries (stats c) + 1\<rparr>;
                    query = p @ COUNTRY_SUFFIX;
                    loc = try_geocode geocode query;
                    result = (case loc of
                                Some (la, lo) \<Rightarrow> (Some la, Some lo)
                              | None \<Rightarrow> (lat, lon));
                    s2 = (case loc of
                            Some _ \<Rightarrow> s1\<lparr>locations_geocoded := locations_geocoded s1 + 1\<rparr>
                          | None \<Rightarrow> s1\<lparr>locations_unresolved := locations_unresolved s1 + 1\<rparr>)
                in (result, \<lparr>geo_cache = (geo_cache c)(key \<mapsto> result), stats = s2\<rparr>))))"

text \<open>
  \<open>events.apply(lambda r: pd.Series(fill_lat_lon(r)), axis=1)\<close>: the rows in order,
  each call seeing the cache and statistics the calls before it left.
\<close>

fun apply_rows ::
  "(ustring \<Rightarrow> ustring) \<Rightarrow> 'f geocoder \<Rightarrow> 'f ctx \<Rightarrow> 'f row list \<Rightarrow> 'f coords list \<times> 'f ctx" where
  "apply_rows lower geocode c [] = ([], c)"
| "apply_rows lower geocode c (r # rs) =
     (let (res, c1) = fill_lat_lon lower geocode c r;
          (ress, c2) = apply_rows lower geocode c1 rs
      in (res # ress, c2))"

text \<open>\<open>events[["Latitude", "Longitude"]] = ...\<close>: the two columns are overwritten row by row.\<close>

definition set_coords :: "'f row \<Rightarrow> 'f coords \<Rightarrow> 'f row" where
  "set_coords r p = r\<lparr>Latitude := fst p, Longitude := snd p\<rparr>"

definition count_missing :: "'f row list \<Rightarrow> nat" where
  "count_missing rs = length (filter missing rs)"

definition init_ctx :: "nat \<Rightarrow> nat \<Rightarrow> 'f ctx" where
  "init_ctx n_total n_missing =
     \<lparr>geo_cache = Map.empty,
      stats = \<lparr>rows_total = n_total, rows_with_missing = n_missing, cache_hits = 0,
               api_queries = 0, locations_geocoded = 0, locations_unresolved = 0\<rparr>\<rparr>"

text \<open>
  The part of \<open>main\<close> from counting the missing coordinates to the recount after the
  pass: the enriched rows, the final statistics and \<open>missing_after\<close>.
\<close>

definition enrich ::
  "(ustring \<Rightarrow> ustring) \<Rightarrow> 'f geocoder \<Rightarrow> 'f row list \<Rightarrow> 'f row list \<times> stats \<times> nat" where
  "enrich lower geocode events =
     (let n_missing = count_missing events;
          c0 = init_ctx (length events) n_missing
      in if n_missing > 0
         then (let (ress, c1) = apply_rows lower geocode c0 events;
                   events' = map2 set_coords events ress
               in (events', stats c1, count_missing events'))
         else (events, stats c0, 0))"

text \<open>
  \<open>events[col].apply(clean_number)\<close> calls the function on the cells of a column from
  the top and stops at the first call that raises.
\<close>

fun series_apply :: "('a \<Rightarrow> py_error + 'b) \<Rightarrow> 'a list \<Rightarrow> py_error + 'b list" where
  "series_apply f [] = Inr []"
| "series_apply f (x # xs) =
     (case f x of
        Inl e \<Rightarrow> Inl e
      | Inr y \<Rightarrow> (case series_apply f xs of Inl e \<Rightarrow> Inl e | Inr ys \<Rightarrow> Inr (y # ys)))"

definition with_coords :: "'f raw_row \<Rightarrow> 'f coords \<Rightarrow> 'f row" where
  "with_coords x p = \<lparr>Latitude = fst p, Longitude = snd p, Location = raw_Location x\<rparr>"

text \<open>
  \<open>main\<close> from the concatenated sheets on: the column \<open>Latitude\<close> is cleaned, then
  the column \<open>Longitude\<close>, then the rows are enriched. A column that no sheet has is
  created with every cell missing, which is a table of \<open>Missing\<close> cells here.
\<close>

definition main ::
  "(ustring \<Rightarrow> 'f option) \<Rightarrow> (int \<Rightarrow> 'f option) \<Rightarrow> (ustring \<Rightarrow> ustring) \<Rightarrow> 'f geocoder \<Rightarrow>
   'f raw_row list \<Rightarrow> py_error + 'f row list \<times> stats \<times> nat" where
  "main float_str float_int lower geocode raw =
     (case series_apply (clean_number float_str float_int) (map (\<lambda>x. Cell (raw_Latitude x)) raw) of
        Inl e \<Rightarrow> Inl e
      | Inr lats \<Rightarrow>
          (case series_apply (clean_number float_str float_int)
                  (map (\<lambda>x. Cell (raw_Longitude x)) raw) of
             Inl e \<Rightarrow> Inl e
           | Inr lons \<Rightarrow>
               Inr (enrich lower geocode (map2 with_coords raw (zip lats lons)))))"

subsection \<open>Requests, and what the cache holds for them\<close>

text \<open>
  What the claims speak about, in terms of the functions above. A row makes a resolution
  request when it lacks a coordinate and has a usable place name; \<open>request_key\<close> is
  the cache key of that request, \<open>request_keys\<close> the keys of the requests of a table
  in the order of its rows, and \<open>first_request\<close> the first row that makes a request
  with a given key.
\<close>

definition request_key :: "(ustring \<Rightarrow> ustring) \<Rightarrow> 'f row \<Rightarrow> ustring option" where
  "request_key lower r =
     (if Latitude r \<noteq> None \<and> Longitude r \<noteq> None then None
      else map_option (cache_key lower) (usable_place (Location r)))"

definition request_keys :: "(ustring \<Rightarrow> ustring) \<Rightarrow> 'f row list \<Rightarrow> ustring list" where
  "request_keys lower rs = List.map_filter (request_key lower) rs"

definition first_request :: "(ustring \<Rightarrow> ustring) \<Rightarrow> 'f row list \<Rightarrow> ustring \<Rightarrow> 'f row option" where
  "first_request lower rs k = find (\<lambda>r. request_key lower r = Some k) rs"

text \<open>
  The pair a request computes when it misses the cache: the geocoder's location for the
  row's place, or the row's own pair when the geocoder has none.
\<close>

definition resolve :: "'f geocoder \<Rightarrow> 'f row \<Rightarrow> 'f coords" where
  "resolve geocode r =
     (case usable_place (Location r) of
        None \<Rightarrow> (Latitude r, Longitude r)
      | Some p \<Rightarrow>
          (case try_geocode geocode (p @ COUNTRY_SUFFIX) of
             Some (la, lo) \<Rightarrow> (Some la, Some lo)
           | None \<Rightarrow> (Latitude r, Longitude r)))"

text \<open>The statistics after the first \<open>i\<close> rows of a pass that starts with the empty cache.\<close>

definition stats_after ::
  "(ustring \<Rightarrow> ustring) \<Rightarrow> 'f geocoder \<Rightarrow> nat \<Rightarrow> nat \<Rightarrow> 'f row list \<Rightarrow> nat \<Rightarrow> stats" where
  "stats_after lower geocode n m rs i =
     stats (snd (apply_rows lower geocode (init_ctx n m) (take i rs)))"

text \<open>A row has both coordinates or neither.\<close>

definition paired :: "'f coords \<Rightarrow> bool" where
  "paired p = ((fst p = None) = (snd p = None))"

definition row_coords :: "'f row \<Rightarrow> 'f coords" where
  "row_coords r = (Latitude r, Longitude r)"

text \<open>
  The cache entry that a row's request meets, if the row makes one and another row made
  the first request for its key, is a pair with both coordinates or neither.
\<close>

definition entry_paired ::
  "(ustring \<Rightarrow> ustring) \<Rightarrow> 'f geocoder \<Rightarrow> 'f row list \<Rightarrow> 'f row \<Rightarrow> bool" where
  "entry_paired lower geocode rs r =
     (case request_key lower r of
        None \<Rightarrow> True
      | Some k \<Rightarrow> (case first_request lower rs k of
                    None \<Rightarrow> True
                  | Some f \<Rightarrow> paired (resolve geocode f)))"

text \<open>What \<open>clean_number\<close> returns for a cell.\<close>

fun clean_cell :: "(ustring \<Rightarrow> 'f option) \<Rightarrow> (int \<Rightarrow> 'f option) \<Rightarrow> 'f cell \<Rightarrow> 'f option" where
  "clean_cell float_str float_int Missing = None"
| "clean_cell float_str float_int (Str s) =
     (if s = [] then None else float_str (replace_comma (strip s)))"
| "clean_cell float_str float_int (PyInt i) = float_int i"
| "clean_cell float_str float_int (PyFloat x) = Some x"
| "clean_cell float_str float_int Other = None"

definition normalize_coords ::
  "(ustring \<Rightarrow> 'f option) \<Rightarrow> (int \<Rightarrow> 'f option) \<Rightarrow> 'f raw_row \<Rightarrow> 'f row" where
  "normalize_coords float_str float_int x =
     \<lparr>Latitude = clean_cell float_str float_int (raw_Latitude x),
      Longitude = clean_cell float_str float_int (raw_Longitude x),
      Location = raw_Location x\<rparr>"

section \<open>The query layer: \<^verbatim>\<open>app.py\<close>\<close>

subsection \<open>Loading the event store\<close>

record date =
  d_year :: int
  d_month :: nat
  d_day :: nat

text \<open>
  A row of the table \<open>events\<close> as \<open>pd.read_sql\<close> returns it, with \<open>Date\<close> already
  passed through \<open>pd.to_datetime(errors="coerce")\<close> (\<open>None\<close> is \<open>NaT\<close>). The
  pipeline writes the columns \<open>Latitude\<close>, \<open>Longitude\<close> and \<open>Sheet\<close>.
\<close>

record 'f db_row =
  db_Sheet :: "ustring option"
  db_Date :: "date option"
  db_Latitude :: "'f cell"
  db_Longitude :: "'f cell"

record 'f event =
  Sheet :: "ustring option"
  Date :: "date option"
  ev_Latitude :: "'f option"
  ev_Longitude :: "'f option"
  year :: "int option"

text \<open>
  \<open>pd.to_numeric(errors="coerce")\<close> on one value: the conversions of strings and
  integers are the library's and parameters here; what does not convert becomes
  \<open>NaN\<close>. The column \<open>year\<close> is assigned after the rows without coordinates are
  dropped; until then the field is \<open>None\<close>.
\<close>

fun to_numeric :: "(ustring \<Rightarrow> 'f option) \<Rightarrow> (int \<Rightarrow> 'f option) \<Rightarrow> 'f cell \<Rightarrow> 'f option" where
  "to_numeric num_str num_int Missing = None"
| "to_numeric num_str num_int (Str s) = num_str s"
| "to_numeric num_str num_int (PyInt i) = num_int i"
| "to_numeric num_str num_int (PyFloat x) = Some x"
| "to_numeric num_str num_int Other = None"

definition coerce_row ::
  "(ustring \<Rightarrow> 'f option) \<Rightarrow> (int \<Rightarrow> 'f option) \<Rightarrow> 'f db_row \<Rightarrow> 'f event" where
  "coerce_row num_str num_int x =
     \<lparr>Sheet = db_Sheet x, Date = db_Date x,
      ev_Latitude = to_numeric num_str num_int (db_Latitude x),
      ev_Longitude = to_numeric num_str num_int (db_Longitude x),
      year = None\<rparr>"

text \<open>\<open>df.dropna(subset=["Latitude", "Longitude"])\<close> keeps the rows with both values.\<close>

definition notna_coords :: "'f event \<Rightarrow> bool" where
  "notna_coords e = (ev_Latitude e \<noteq> None \<and> ev_Longitude e \<noteq> None)"

definition add_year :: "'f event \<Rightarrow> 'f event" where
  "add_year e = e\<lparr>year := map_option d_year (Date e)\<rparr>"

text \<open>The argument is \<open>None\<close> when the database file does not exist.\<close>

definition load_events ::
  "(ustring \<Rightarrow> 'f option) \<Rightarrow> (int \<Rightarrow> 'f option) \<Rightarrow> 'f db_row list option \<Rightarrow>
   py_error + 'f event list" where
  "load_events num_str num_int db =
     (case db of
        None \<Rightarrow> Inl FileNotFoundError
      | Some rows \<Rightarrow>
          Inr (map add_year (filter notna_coords (map (coerce_row num_str num_int) rows))))"

subsection \<open>Years, decades and labels\<close>

text \<open>\<open>sorted(int(y) for y in df["year"].dropna().unique())\<close>\<close>

definition all_years :: "'f event list \<Rightarrow> int list" where
  "all_years df = sort (remdups (List.map_filter year df))"

text \<open>\<open>min(all_years)\<close> and \<open>max(all_years)\<close> raise \<open>ValueError\<close> on the empty list.\<close>

definition year_bounds :: "int list \<Rightarrow> py_error + int \<times> int" where
  "year_bounds ys = (if ys = [] then Inl ValueError else Inr (Min (set ys), Max (set ys)))"

text \<open>\<open>sorted({(y // 10) * 10 for y in all_years})\<close>; \<open>div\<close> on \<open>int\<close> rounds down as \<open>//\<close> does.\<close>

definition decades :: "int list \<Rightarrow> int list" where
  "decades ys = sort (remdups (map (\<lambda>y. (y div 10) * 10) ys))"

text \<open>\<open>str(n)\<close> for an integer: decimal digits, with a minus sign (45) below zero.\<close>

fun str_nat :: "nat \<Rightarrow> ustring" where
  "str_nat n = (if n < 10 then [48 + n] else str_nat (n div 10) @ [48 + n mod 10])"

definition str_int :: "int \<Rightarrow> ustring" where
  "str_int i = (if i < 0 then 45 # str_nat (nat (- i)) else str_nat (nat i))"

text \<open>\<open>f"{d}s"\<close>\<close>

definition decade_label :: "int \<Rightarrow> ustring" where
  "decade_label d = str_int d @ u ''s''"

text \<open>
  The dictionary \<open>label_to_years\<close>: first one entry per year, then one per decade, a
  later assignment to the same key replacing the earlier one.
\<close>

definition label_to_years :: "int list \<Rightarrow> (ustring \<rightharpoonup> int list)" where
  "label_to_years ys =
     (let m1 = foldl (\<lambda>m y. m(str_int y \<mapsto> [y])) Map.empty ys
      in foldl (\<lambda>m d. m(decade_label d \<mapsto> filter (\<lambda>y. d \<le> y \<and> y \<le> d + 9) ys)) m1 (decades ys))"

text \<open>\<open>label_to_years.get(label, [])\<close>\<close>

definition get_years :: "(ustring \<rightharpoonup> int list) \<Rightarrow> ustring \<Rightarrow> int list" where
  "get_years m label = (case m label of None \<Rightarrow> [] | Some ys \<Rightarrow> ys)"

definition selected_years :: "int list \<Rightarrow> ustring list \<Rightarrow> int list" where
  "selected_years ys selected_year_labels =
     (if selected_year_labels \<noteq> []
      then sort (remdups (concat (map (get_years (label_to_years ys)) selected_year_labels)))
      else ys)"

subsection \<open>The two filters\<close>

text \<open>
  \<open>selected_types\<close> is \<open>None\<close> when the table has no column \<open>Sheet\<close>, else the list
  the multiselect returns. \<open>if selected_types:\<close> holds for a non-empty list only.
\<close>

fun truthy :: "ustring list option \<Rightarrow> bool" where
  "truthy None = False"
| "truthy (Some xs) = (xs \<noteq> [])"

text \<open>\<open>df["year"].isin(ys)\<close> and \<open>df["Sheet"].isin(ts)\<close> on one row; a missing value is in no list.\<close>

definition year_isin :: "int list \<Rightarrow> 'f event \<Rightarrow> bool" where
  "year_isin ys e = (case year e of None \<Rightarrow> False | Some y \<Rightarrow> y \<in> set ys)"

definition sheet_isin :: "ustring list option \<Rightarrow> 'f event \<Rightarrow> bool" where
  "sheet_isin ts e =
     (case Sheet e of None \<Rightarrow> False
      | Some s \<Rightarrow> (case ts of None \<Rightarrow> False | Some xs \<Rightarrow> s \<in> set xs))"

definition mask :: "int list \<Rightarrow> ustring list option \<Rightarrow> 'f event \<Rightarrow> bool" where
  "mask sel_years selected_types e =
     (if truthy selected_types then year_isin sel_years e \<and> sheet_isin selected_types e
      else year_isin sel_years e)"

definition filtered :: "'f event list \<Rightarrow> int list \<Rightarrow> ustring list option \<Rightarrow> 'f event list" where
  "filtered df sel_years selected_types = filter (mask sel_years selected_types) df"

text \<open>\<open>df["year"] <= year_tl\<close> or \<open>df["year"] == year_tl\<close>; a comparison with \<open>NaN\<close> is false.\<close>

definition year_cmp :: "bool \<Rightarrow> int \<Rightarrow> 'f event \<Rightarrow> bool" where
  "year_cmp cumulative year_tl e =
     (case year e of None \<Rightarrow> False
      | Some y \<Rightarrow> if cumulative then y \<le> year_tl else y = year_tl)"

definition tl_mask :: "bool \<Rightarrow> int \<Rightarrow> ustring list option \<Rightarrow> 'f event \<Rightarrow> bool" where
  "tl_mask cumulative year_tl selected_types_tl e =
     (if truthy selected_types_tl
      then year_cmp cumulative year_tl e \<and> sheet_isin selected_types_tl e
      else year_cmp cumulative year_tl e)"

definition df_tl :: "'f event list \<Rightarrow> bool \<Rightarrow> int \<Rightarrow> ustring list option \<Rightarrow> 'f event list" where
  "df_tl df cumulative year_tl selected_types_tl =
     filter (tl_mask cumulative year_tl selected_types_tl) df"

subsection \<open>The queries as the specification words them\<close>

text \<open>
  Map mode: \<open>year \<in> selectedYears AND category \<in> selectedCategories\<close>. Time-lapse:
  \<open>year \<le> targetYear\<close> if cumulative, else \<open>year = targetYear\<close>, and
  \<open>category \<in> selectedCategories\<close>.
\<close>

definition spec_map_mode :: "'f event list \<Rightarrow> int set \<Rightarrow> ustring set \<Rightarrow> 'f event list" where
  "spec_map_mode df selectedYears selectedCategories =
     filter (\<lambda>e. (case year e of None \<Rightarrow> False | Some y \<Rightarrow> y \<in> selectedYears)
                 \<and> (case Sheet e of None \<Rightarrow> False | Some s \<Rightarrow> s \<in> selectedCategories)) df"

definition spec_timelapse :: "'f event list \<Rightarrow> int \<Rightarrow> bool \<Rightarrow> ustring set \<Rightarrow> 'f event list" where
  "spec_timelapse df targetYear cumulative selectedCategories =
     filter (\<lambda>e. (case year e of None \<Rightarrow> False
                  | Some y \<Rightarrow> if cumulative then y \<le> targetYear else y = targetYear)
                 \<and> (case Sheet e of None \<Rightarrow> False | Some s \<Rightarrow> s \<in> selectedCategories)) df"

section \<open>Concrete inputs\<close>

text \<open>
  Three rows naming the same place in different spellings, the second with coordinates
  already, and a geocoder that knows the first spelling only.
\<close>

definition geocode_lund :: "real geocoder" where
  "geocode_lund q = (if q = u '' Lund , Sweden'' then Found 55.7 13.2 else NoMatch)"

definition rows_lund :: "real row list" where
  "rows_lund =
     [\<lparr>Latitude = None, Longitude = None, Location = Str (u '' Lund '')\<rparr>,
      \<lparr>Latitude = Some 1, Longitude = Some 2, Location = Str (u ''Lund'')\<rparr>,
      \<lparr>Latitude = None, Longitude = None, Location = Str (u ''LUND'')\<rparr>]"


text \<open>
  Three raw rows: one with both coordinates in Swedish notation, one with an unparseable
  longitude, one without coordinates at a place the geocoder does not know. The
  conversion \<open>float_str_demo\<close> knows three numbers and, like \<open>float\<close>, ignores
  white space around them.
\<close>

definition float_str_demo :: "ustring \<Rightarrow> real option" where
  "float_str_demo s =
     (let t = strip s
      in if t = u ''48.5'' then Some 48.5 else if t = u ''7.25'' then Some 7.25
         else if t = u ''13'' then Some 13 else None)"

definition float_int_demo :: "int \<Rightarrow> real option" where
  "float_int_demo i = Some (real_of_int i)"

definition raw_demo :: "real raw_row list" where
  "raw_demo =
     [\<lparr>raw_Latitude = Str (u ''48,5''), raw_Longitude = Str (u '' 13 ''),
       raw_Location = Str (u ''Lund'')\<rparr>,
      \<lparr>raw_Latitude = Missing, raw_Longitude = Str (u ''x''), raw_Location = Str (u '' Lund '')\<rparr>,
      \<lparr>raw_Latitude = Missing, raw_Longitude = Missing, raw_Location = Str (u ''Ystad'')\<rparr>]"

text \<open>A single row with a latitude, no longitude and no place name.\<close>

definition rows_half :: "real row list" where
  "rows_half = [\<lparr>Latitude = Some 1, Longitude = None, Location = Missing\<rparr>]"

text \<open>
  Two rows at the same place, which the geocoder does not know: the first has a longitude
  only, the second a latitude only. And the same with a second row that has no
  coordinates.
\<close>

definition rows_ystad :: "real row list" where
  "rows_ystad =
     [\<lparr>Latitude = None, Longitude = Some 5, Location = Str (u ''Ystad'')\<rparr>,
      \<lparr>Latitude = Some 7, Longitude = None, Location = Str (u ''ystad '')\<rparr>]"

definition rows_ystad2 :: "real row list" where
  "rows_ystad2 =
     [\<lparr>Latitude = None, Longitude = Some 5, Location = Str (u ''Ystad'')\<rparr>,
      \<lparr>Latitude = None, Longitude = None, Location = Str (u ''ystad '')\<rparr>]"

text \<open>
  A stored table of five rows, one of them without a latitude, and the table
  \<open>load_events\<close> makes of it.
\<close>

definition db_demo :: "real db_row list" where
  "db_demo =
     [\<lparr>db_Sheet = Some (u ''rain''), db_Date = Some \<lparr>d_year = 2001, d_month = 6, d_day = 1\<rparr>,
       db_Latitude = PyFloat 55.7, db_Longitude = PyFloat 13.2\<rparr>,
      \<lparr>db_Sheet = Some (u ''snow''), db_Date = Some \<lparr>d_year = 1995, d_month = 1, d_day = 12\<rparr>,
       db_Latitude = Str (u ''48.5''), db_Longitude = Str (u ''13'')\<rparr>,
      \<lparr>db_Sheet = Some (u ''rain''), db_Date = Some \<lparr>d_year = 2005, d_month = 8, d_day = 3\<rparr>,
       db_Latitude = Missing, db_Longitude = PyFloat 13\<rparr>,
      \<lparr>db_Sheet = Some (u ''wind''), db_Date = None,
       db_Latitude = PyFloat 59.3, db_Longitude = PyInt 18\<rparr>,
      \<lparr>db_Sheet = Some (u ''snow''), db_Date = Some \<lparr>d_year = 2005, d_month = 2, d_day = 20\<rparr>,
       db_Latitude = PyFloat 63.8, db_Longitude = PyFloat 20.3\<rparr>]"

definition df_demo :: "real event list" where
  "df_demo =
     [\<lparr>Sheet = Some (u ''rain''), Date = Some \<lparr>d_year = 2001, d_month = 6, d_day = 1\<rparr>,
       ev_Latitude = Some 55.7, ev_Longitude = Some 13.2, year = Some 2001\<rparr>,
      \<lparr>Sheet = Some (u ''snow''), Date = Some \<lparr>d_year = 1995, d_month = 1, d_day = 12\<rparr>,
       ev_Latitude = Some 48.5, ev_Longitude = Some 13, year = Some 1995\<rparr>,
      \<lparr>Sheet = Some (u ''wind''), Date = None,
       ev_Latitude = Some 59.3, ev_Longitude = Some 18, year = None\<rparr>,
      \<lparr>Sheet = Some (u ''snow''), Date = Some \<lparr>d_year = 2005, d_month = 2, d_day = 20\<rparr>,
       ev_Latitude = Some 63.8, ev_Longitude = Some 20.3, year = Some 2005\<rparr>]"

section \<open>The cache of \<open>fill_lat_lon\<close>\<close>

text \<open>The three ways a call of \<open>fill_lat_lon\<close> can go.\<close>

lemma fill_no_request:
  "request_key l r = None \<Longrightarrow> fill_lat_lon l g c r = ((Latitude r, Longitude r), c)"
  by (auto simp: fill_lat_lon_def request_key_def Let_def split: option.splits if_splits)

lemma fill_hit:
  "request_key l r = Some k \<Longrightarrow> geo_cache c k = Some res \<Longrightarrow>
   fill_lat_lon l g c r = (res, c\<lparr>stats := (stats c)\<lparr>cache_hits := cache_hits (stats c) + 1\<rparr>\<rparr>)"
  by (auto simp: fill_lat_lon_def request_key_def Let_def split: option.splits if_splits)

lemma fill_miss:
  "request_key l r = Some k \<Longrightarrow> geo_cache c k = None \<Longrightarrow>
   \<exists>c'. fill_lat_lon l g c r = (resolve g r, c') \<and>
     geo_cache c' = (geo_cache c)(k \<mapsto> resolve g r) \<and>
     api_queries (stats c') = api_queries (stats c) + 1 \<and>
     cache_hits (stats c') = cache_hits (stats c)"
  by (auto simp: fill_lat_lon_def request_key_def resolve_def Let_def
           split: option.splits if_splits)

lemma fill_cases:
  fixes c :: "'f ctx" and r :: "'f row"
  obtains (pass) "request_key l r = None"
  | (hit) k res where "request_key l r = Some k" "geo_cache c k = Some res"
  | (miss) k where "request_key l r = Some k" "geo_cache c k = None"
  by (cases "request_key l r"; cases "geo_cache c (the (request_key l r))") auto

text \<open>Entries of the cache are never removed or replaced.\<close>

lemma fill_cache_mono:
  assumes "geo_cache c k = Some v"
  shows "geo_cache (snd (fill_lat_lon l g c r)) k = Some v"
proof (rule fill_cases[where r = r and c = c and l = l])
  assume "request_key l r = None"
  with assms show ?thesis by (simp add: fill_no_request)
next
  fix k' res assume "request_key l r = Some k'" "geo_cache c k' = Some res"
  with assms show ?thesis by (simp add: fill_hit)
next
  fix k' assume miss: "request_key l r = Some k'" "geo_cache c k' = None"
  with assms have "k' \<noteq> k" by auto
  with fill_miss[OF miss, of g] assms show ?thesis by auto
qed

lemma fill_cache_other:
  assumes "request_key l r \<noteq> Some k"
  shows "geo_cache (snd (fill_lat_lon l g c r)) k = geo_cache c k"
proof (rule fill_cases[where r = r and c = c and l = l])
  assume "request_key l r = None"
  then show ?thesis by (simp add: fill_no_request)
next
  fix k' res assume "request_key l r = Some k'" "geo_cache c k' = Some res"
  then show ?thesis by (simp add: fill_hit)
next
  fix k' assume miss: "request_key l r = Some k'" "geo_cache c k' = None"
  with assms have "k' \<noteq> k" by simp
  with fill_miss[OF miss, of g] show ?thesis by auto
qed

lemma fill_result_cached:
  assumes "request_key l r = Some k"
  shows "geo_cache (snd (fill_lat_lon l g c r)) k = Some (fst (fill_lat_lon l g c r))"
proof (cases "geo_cache c k")
  case None
  from fill_miss[OF assms None, of g] show ?thesis by auto
next
  case (Some res)
  from fill_hit[OF assms Some, of g] Some show ?thesis by simp
qed

lemma apply_cache_mono:
  "geo_cache c k = Some v \<Longrightarrow> geo_cache (snd (apply_rows l g c rs)) k = Some v"
  by (induction rs arbitrary: c) (auto simp: split_beta Let_def fill_cache_mono)

lemma length_apply_rows: "length (fst (apply_rows l g c rs)) = length rs"
  by (induction rs arbitrary: c) (auto simp: split_beta Let_def)

lemma snd_apply_rows_Cons:
  "snd (apply_rows l g c (r # rs)) = snd (apply_rows l g (snd (fill_lat_lon l g c r)) rs)"
  by (simp add: split_beta Let_def)


text \<open>What a request returns is what the cache holds for its key at the end of the pass.\<close>

lemma apply_result_cached:
  "i < length rs \<Longrightarrow> request_key l (rs ! i) = Some k \<Longrightarrow>
   geo_cache (snd (apply_rows l g c rs)) k = Some (fst (apply_rows l g c rs) ! i)"
proof (induction rs arbitrary: c i)
  case Nil
  then show ?case by simp
next
  case (Cons r rs)
  show ?case
  proof (cases i)
    case 0
    with Cons.prems have "request_key l r = Some k" by simp
    then have "geo_cache (snd (fill_lat_lon l g c r)) k = Some (fst (fill_lat_lon l g c r))"
      by (rule fill_result_cached)
    then have "geo_cache (snd (apply_rows l g (snd (fill_lat_lon l g c r)) rs)) k
               = Some (fst (fill_lat_lon l g c r))"
      by (rule apply_cache_mono)
    with 0 show ?thesis by (simp add: split_beta Let_def)
  next
    case (Suc j)
    with Cons.prems have "j < length rs" "request_key l (rs ! j) = Some k" by simp_all
    from Cons.IH[OF this] Suc show ?thesis by (simp add: split_beta Let_def)
  qed
qed



lemma first_request_Cons:
  "first_request l (r # rs) k = (if request_key l r = Some k then Some r else first_request l rs k)"
  by (simp add: first_request_def)


text \<open>
  After a pass, the cache holds for a key what it held before, or else what the first
  request for that key computed.
\<close>

lemma cache_after:
  "geo_cache (snd (apply_rows l g c rs)) k =
     (case geo_cache c k of
        Some v \<Rightarrow> Some v
      | None \<Rightarrow> map_option (resolve g) (first_request l rs k))"
proof (induction rs arbitrary: c)
  case Nil
  then show ?case by (simp add: first_request_def split: option.splits)
next
  case (Cons r rs)
  let ?c1 = "snd (fill_lat_lon l g c r)"
  show ?case
  proof (cases "request_key l r = Some k")
    case False
    then have "geo_cache ?c1 k = geo_cache c k" by (rule fill_cache_other)
    with False Cons.IH[of ?c1] show ?thesis
      by (simp add: snd_apply_rows_Cons first_request_Cons del: apply_rows.simps split: option.splits)
  next
    case True
    show ?thesis
    proof (cases "geo_cache c k")
      case None
      from fill_miss[OF True None, of g] have "geo_cache ?c1 k = Some (resolve g r)" by auto
      with True None Cons.IH[of ?c1] show ?thesis
        by (simp add: snd_apply_rows_Cons first_request_Cons del: apply_rows.simps split: option.splits)
    next
      case (Some v)
      then have "geo_cache ?c1 k = Some v" by (rule fill_cache_mono)
      with True Some Cons.IH[of ?c1] show ?thesis
        by (simp add: snd_apply_rows_Cons first_request_Cons del: apply_rows.simps split: option.splits)
    qed
  qed
qed


section \<open>The enrichment as a pass of \<open>fill_lat_lon\<close>\<close>

lemma request_key_None_iff:
  "request_key l r = None \<longleftrightarrow> has_coords r \<or> usable_place (Location r) = None"
  by (auto simp: request_key_def has_coords_def)

lemma set_coords_own: "set_coords r (Latitude r, Longitude r) = r"
  by (simp add: set_coords_def)

lemma Location_set_coords: "Location (set_coords r p) = Location r"
  by (simp add: set_coords_def)

lemma row_coords_set_coords: "row_coords (set_coords r p) = p"
  by (simp add: row_coords_def set_coords_def)

text \<open>The result for row \<open>i\<close> is computed from the rows up to \<open>i\<close> only.\<close>

lemma apply_rows_nth:
  "i < length rs \<Longrightarrow>
   fst (apply_rows l g c rs) ! i
     = fst (fill_lat_lon l g (snd (apply_rows l g c (take i rs))) (rs ! i))"
proof (induction rs arbitrary: c i)
  case Nil
  then show ?case by simp
next
  case (Cons r rs)
  show ?case
  proof (cases i)
    case 0
    then show ?thesis by (simp add: split_beta Let_def)
  next
    case (Suc j)
    with Cons.prems have "j < length rs" by simp
    from Cons.IH[OF this] Suc show ?thesis by (simp add: split_beta Let_def)
  qed
qed

lemma fill_only_cache:
  "geo_cache c = geo_cache c' \<Longrightarrow> fst (fill_lat_lon l g c r) = fst (fill_lat_lon l g c' r)"
  by (auto simp: fill_lat_lon_def Let_def split: option.splits)

text \<open>A table in which no row lacks a coordinate passes unchanged, and so does the context.\<close>

lemma apply_rows_complete:
  "\<forall>r\<in>set rs. \<not> missing r \<Longrightarrow>
   map2 set_coords rs (fst (apply_rows l g c rs)) = rs \<and> snd (apply_rows l g c rs) = c"
proof (induction rs)
  case Nil
  then show ?case by simp
next
  case (Cons r rs)
  then have "request_key l r = None" by (auto simp: request_key_def missing_def)
  then have "fill_lat_lon l g c r = ((Latitude r, Longitude r), c)" by (rule fill_no_request)
  with Cons show ?case by (simp add: set_coords_own split_beta)
qed

lemma no_missing:
  "\<not> count_missing rs > 0 \<Longrightarrow> \<forall>r\<in>set rs. \<not> missing r"
  by (auto simp: count_missing_def filter_empty_conv)

lemma enrich_rows:
  "fst (enrich l g events) =
     map2 set_coords events
       (fst (apply_rows l g (init_ctx (length events) (count_missing events)) events))"
proof (cases "count_missing events > 0")
  case True
  then show ?thesis by (simp add: enrich_def Let_def split_beta)
next
  case False
  from apply_rows_complete[OF no_missing[OF False]] False show ?thesis
    by (simp add: enrich_def Let_def)
qed

lemma enrich_stats:
  "fst (snd (enrich l g events)) =
     stats (snd (apply_rows l g (init_ctx (length events) (count_missing events)) events))"
proof (cases "count_missing events > 0")
  case True
  then show ?thesis by (simp add: enrich_def Let_def split_beta)
next
  case False
  from apply_rows_complete[OF no_missing[OF False]] False show ?thesis
    by (simp add: enrich_def Let_def)
qed

lemma enrich_nth:
  "i < length events \<Longrightarrow>
   row_coords (fst (enrich l g events) ! i)
     = fst (apply_rows l g (init_ctx (length events) (count_missing events)) events) ! i"
  by (simp add: enrich_rows length_apply_rows row_coords_set_coords)

section \<open>One query for each key\<close>

lemma geo_cache_init: "geo_cache (init_ctx n m) = Map.empty"
  by (simp add: init_ctx_def)


text \<open>A request returns what the first request for its key computed.\<close>

lemma request_result:
  assumes "i < length rs" and "request_key l (rs ! i) = Some k"
  shows "map_option (resolve g) (first_request l rs k)
         = Some (fst (apply_rows l g (init_ctx n m) rs) ! i)"
proof -
  have "geo_cache (snd (apply_rows l g (init_ctx n m) rs)) k
        = Some (fst (apply_rows l g (init_ctx n m) rs) ! i)"
    using assms by (rule apply_result_cached)
  then show ?thesis by (simp add: cache_after geo_cache_init)
qed




text \<open>The definitions that evaluate the pipeline on a concrete table.\<close>

lemmas pipeline_eval =
  request_keys_def request_key_def cache_key_def strip_def u_def isspace_def
  latin1_lower_def List.map_filter_def enrich_def count_missing_def missing_def init_ctx_def
  fill_lat_lon_def Let_def COUNTRY_SUFFIX_def set_coords_def row_coords_def stats_after_def
  resolve_def first_request_def replace_comma_def



lemma lund_coords:
  "row_coords (fst (enrich latin1_lower geocode_lund rows_lund) ! 0) = (Some 55.7, Some 13.2)"
  "row_coords (fst (enrich latin1_lower geocode_lund rows_lund) ! 2) = (Some 55.7, Some 13.2)"
  by (simp_all add: pipeline_eval rows_lund_def geocode_lund_def)



section \<open>The statistics of a run\<close>

lemma fill_stats_frame:
  "rows_total (stats (snd (fill_lat_lon l g c r))) = rows_total (stats c) \<and>
   rows_with_missing (stats (snd (fill_lat_lon l g c r))) = rows_with_missing (stats c)"
  by (auto simp: fill_lat_lon_def Let_def split: option.splits)

lemma apply_stats_frame:
  "rows_total (stats (snd (apply_rows l g c rs))) = rows_total (stats c) \<and>
   rows_with_missing (stats (snd (apply_rows l g c rs))) = rows_with_missing (stats c)"
  by (induction rs arbitrary: c) (auto simp: split_beta Let_def fill_stats_frame)

text \<open>A row that had both coordinates still has them after \<open>fill_lat_lon\<close>.\<close>

lemma fill_keeps_complete:
  "missing (set_coords r (fst (fill_lat_lon l g c r))) \<Longrightarrow> missing r"
proof (rule ccontr)
  assume m: "missing (set_coords r (fst (fill_lat_lon l g c r)))" and "\<not> missing r"
  then have "request_key l r = None" by (auto simp: request_key_def missing_def)
  then have "fill_lat_lon l g c r = ((Latitude r, Longitude r), c)" by (rule fill_no_request)
  with m \<open>\<not> missing r\<close> show False by (simp add: set_coords_own)
qed

lemma count_missing_apply:
  "count_missing (map2 set_coords rs (fst (apply_rows l g c rs))) \<le> count_missing rs"
proof (induction rs arbitrary: c)
  case Nil
  then show ?case by (simp add: count_missing_def)
next
  case (Cons r rs)
  let ?c1 = "snd (fill_lat_lon l g c r)"
  let ?r' = "set_coords r (fst (fill_lat_lon l g c r))"
  have ih: "count_missing (map2 set_coords rs (fst (apply_rows l g ?c1 rs))) \<le> count_missing rs"
    by (rule Cons.IH)
  have new: "count_missing (map2 set_coords (r # rs) (fst (apply_rows l g c (r # rs))))
             = (if missing ?r' then 1 else 0)
               + count_missing (map2 set_coords rs (fst (apply_rows l g ?c1 rs)))"
    by (simp add: count_missing_def split_beta Let_def)
  have old: "count_missing (r # rs) = (if missing r then 1 else 0) + count_missing rs"
    by (simp add: count_missing_def)
  have "missing ?r' \<longrightarrow> missing r"
    using fill_keeps_complete by blast
  with ih show ?case unfolding new old by auto
qed

text \<open>The three numbers that \<open>enrich\<close> reports.\<close>

lemma enrich_numbers:
  "rows_total (fst (snd (enrich l g events))) = length events \<and>
   rows_with_missing (fst (snd (enrich l g events))) = count_missing events \<and>
   snd (snd (enrich l g events)) = count_missing (fst (enrich l g events)) \<and>
   count_missing (fst (enrich l g events)) \<le> count_missing events"
proof -
  let ?c0 = "init_ctx (length events) (count_missing events) :: 'a ctx"
  have a: "rows_total (fst (snd (enrich l g events))) = length events"
    "rows_with_missing (fst (snd (enrich l g events))) = count_missing events"
    using apply_stats_frame[of l g ?c0 events]
    by (simp_all add: enrich_stats init_ctx_def)
  have b: "count_missing (fst (enrich l g events)) \<le> count_missing events"
    unfolding enrich_rows by (rule count_missing_apply)
  have c: "snd (snd (enrich l g events)) = count_missing (fst (enrich l g events))"
  proof (cases "count_missing events > 0")
    case True
    then show ?thesis by (simp add: enrich_def Let_def split_beta)
  next
    case False
    then show ?thesis by (simp add: enrich_def Let_def)
  qed
  from a b c show ?thesis by simp
qed

text \<open>On the cells of a table \<open>clean_number\<close> does not raise, so \<open>main\<close> reaches the pass.\<close>

lemma clean_number_Cell: "clean_number fs fi (Cell c) = Inr (clean_cell fs fi c)"
  by (cases c) simp_all

lemma series_apply_cells:
  "series_apply (clean_number fs fi) (map (\<lambda>x. Cell (f x)) xs)
     = Inr (map (\<lambda>x. clean_cell fs fi (f x)) xs)"
  by (induction xs) (simp_all add: clean_number_Cell)

lemma with_coords_normalize:
  "map2 with_coords raw
     (zip (map (\<lambda>x. clean_cell fs fi (raw_Latitude x)) raw)
          (map (\<lambda>x. clean_cell fs fi (raw_Longitude x)) raw))
   = map (normalize_coords fs fi) raw"
  by (induction raw) (simp_all add: with_coords_def normalize_coords_def)

lemma main_eq:
  "main fs fi l g raw = Inr (enrich l g (map (normalize_coords fs fi) raw))"
  by (simp add: main_def series_apply_cells with_coords_normalize)

lemma main_demo:
  "main float_str_demo float_int_demo latin1_lower geocode_lund raw_demo =
     Inr ([\<lparr>Latitude = Some 48.5, Longitude = Some 13, Location = Str (u ''Lund'')\<rparr>,
           \<lparr>Latitude = Some 55.7, Longitude = Some 13.2, Location = Str (u '' Lund '')\<rparr>,
           \<lparr>Latitude = None, Longitude = None, Location = Str (u ''Ystad'')\<rparr>],
          \<lparr>rows_total = 3, rows_with_missing = 2, cache_hits = 0, api_queries = 2,
           locations_geocoded = 1, locations_unresolved = 1\<rparr>, 1)"
  by (simp add: main_eq normalize_coords_def pipeline_eval raw_demo_def geocode_lund_def
                float_str_demo_def del: not_None_eq)

text \<open>
  Claim C5. Whatever the input, \<open>main\<close> returns, and the three final statistics of
  the run are ordered: \<open>missing_after \<le> rows_with_missing \<le> rows_total\<close>, where
  \<open>rows_total\<close> is the number of rows, \<open>rows_with_missing\<close> the number of rows
  lacking a coordinate before the pass and \<open>missing_after\<close> the number of rows
  lacking one after it.
\<close>

theorem statistics_ordered:
  "\<exists>events' st missing_after.
     main fs fi l g raw = Inr (events', st, missing_after) \<and>
     missing_after \<le> rows_with_missing st \<and> rows_with_missing st \<le> rows_total st \<and>
     rows_total st = length raw \<and>
     rows_with_missing st = count_missing (map (normalize_coords fs fi) raw) \<and>
     missing_after = count_missing events'"
proof -
  let ?ev = "map (normalize_coords fs fi) raw"
  let ?out = "enrich l g ?ev"
  have le: "count_missing ?ev \<le> length raw"
    using length_filter_le[of missing ?ev] by (simp add: count_missing_def)
  have "main fs fi l g raw = Inr (fst ?out, fst (snd ?out), snd (snd ?out))"
    by (simp add: main_eq)
  moreover note enrich_numbers[of l g ?ev]
  ultimately show ?thesis using le by (intro exI[of _ "fst ?out"] exI[of _ "fst (snd ?out)"]
        exI[of _ "snd (snd ?out)"]) simp
qed

theorem statistics_ordered_witness:
  "main float_str_demo float_int_demo latin1_lower geocode_lund raw_demo =
     Inr ([\<lparr>Latitude = Some 48.5, Longitude = Some 13, Location = Str (u ''Lund'')\<rparr>,
           \<lparr>Latitude = Some 55.7, Longitude = Some 13.2, Location = Str (u '' Lund '')\<rparr>,
           \<lparr>Latitude = None, Longitude = None, Location = Str (u ''Ystad'')\<rparr>],
          \<lparr>rows_total = 3, rows_with_missing = 2, cache_hits = 0, api_queries = 2,
           locations_geocoded = 1, locations_unresolved = 1\<rparr>, 1) \<and>
   (1::nat) \<le> 2 \<and> (2::nat) \<le> 3 \<and> length raw_demo = 3"
proof -
  from statistics_ordered[of float_str_demo float_int_demo latin1_lower geocode_lund raw_demo]
  obtain events' st missing_after where
    m: "main float_str_demo float_int_demo latin1_lower geocode_lund raw_demo
        = Inr (events', st, missing_after)"
    and o: "missing_after \<le> rows_with_missing st" "rows_with_missing st \<le> rows_total st"
      "rows_total st = length raw_demo"
    by blast
  from m main_demo have "missing_after = 1" "rows_with_missing st = 2" "rows_total st = 3"
    by auto
  with o main_demo show ?thesis by simp
qed

section \<open>Which rows the enrichment changes\<close>

text \<open>
  Claim C9. A row that already has both coordinates, and a row without a usable place
  name, leave the enrichment exactly as they entered it. The enrichment changes nothing
  but \<open>Latitude\<close> and \<open>Longitude\<close> of a row, and what it writes into row \<open>i\<close>
  is what \<open>fill_lat_lon\<close> returns for that row in the context the rows before it
  left; of that context only the cache matters.
\<close>

theorem rows_pass_through:
  assumes "i < length events"
  shows "length (fst (enrich l g events)) = length events \<and>
         Location (fst (enrich l g events) ! i) = Location (events ! i) \<and>
         (has_coords (events ! i) \<or> usable_place (Location (events ! i)) = None \<longrightarrow>
            fst (enrich l g events) ! i = events ! i) \<and>
         fst (enrich l g events) ! i =
           set_coords (events ! i)
             (fst (fill_lat_lon l g
                (snd (apply_rows l g (init_ctx (length events) (count_missing events))
                        (take i events)))
                (events ! i))) \<and>
         (\<forall>c c'. geo_cache c = geo_cache c' \<longrightarrow>
            fst (fill_lat_lon l g c (events ! i)) = fst (fill_lat_lon l g c' (events ! i)))"
proof -
  let ?c0 = "init_ctx (length events) (count_missing events) :: 'a ctx"
  let ?ci = "snd (apply_rows l g ?c0 (take i events))"
  have len: "length (fst (enrich l g events)) = length events"
    by (simp add: enrich_rows length_apply_rows)
  have nth: "fst (enrich l g events) ! i
             = set_coords (events ! i) (fst (fill_lat_lon l g ?ci (events ! i)))"
    using assms by (simp add: enrich_rows length_apply_rows apply_rows_nth)
  have pass: "fst (enrich l g events) ! i = events ! i"
    if "has_coords (events ! i) \<or> usable_place (Location (events ! i)) = None"
  proof -
    from that have "request_key l (events ! i) = None" by (simp add: request_key_None_iff)
    then show ?thesis unfolding nth by (simp add: fill_no_request set_coords_own)
  qed
  from len nth pass show ?thesis
    by (auto simp: Location_set_coords dest: fill_only_cache)
qed

theorem rows_pass_through_witness:
  "1 < length rows_lund \<and> has_coords (rows_lund ! 1) \<and>
   fst (enrich latin1_lower geocode_lund rows_lund) ! 1 = rows_lund ! 1 \<and>
   length (fst (enrich latin1_lower geocode_lund rows_lund)) = 3"
proof -
  have h: "1 < length rows_lund" "has_coords (rows_lund ! 1)"
    by (simp_all add: rows_lund_def has_coords_def)
  from rows_pass_through[OF h(1), of latin1_lower geocode_lund] h show ?thesis
    by (simp add: rows_lund_def)
qed

section \<open>Coordinates as pairs\<close>

lemma paired_cases:
  "paired p \<longleftrightarrow> p = (None, None) \<or> (\<exists>la lo. p = (Some la, Some lo))"
  by (cases p) (auto simp: paired_def)

lemma request_paired_absent:
  "request_key l r = Some k \<Longrightarrow> paired (row_coords r) \<Longrightarrow> row_coords r = (None, None)"
  by (auto simp: request_key_def paired_def row_coords_def split: if_splits)

text \<open>
  Claim C4, as amended. A row that enters the enrichment with both coordinates or
  neither leaves it with both or neither, its pair being the one it had or a complete
  pair, provided the cache entry its request meets is not the single coordinate of an
  earlier row of the same place. That case is a defect of the shared cache entry, shown
  at a concrete table in \<open>shared_entry_half_pair\<close>; nothing is claimed about it
  here.
\<close>

theorem coordinates_stay_paired:
  assumes "i < length events" and "paired (row_coords (events ! i))"
    and "entry_paired l g events (events ! i)"
  shows "paired (row_coords (fst (enrich l g events) ! i)) \<and>
         (row_coords (fst (enrich l g events) ! i) = row_coords (events ! i) \<or>
          (\<exists>la lo. row_coords (fst (enrich l g events) ! i) = (Some la, Some lo)))"
proof -
  let ?out = "row_coords (fst (enrich l g events) ! i)"
  let ?run = "apply_rows l g (init_ctx (length events) (count_missing events)) events"
  have out: "?out = fst ?run ! i"
    using assms(1) by (rule enrich_nth)
  show ?thesis
  proof (cases "request_key l (events ! i)")
    case None
    then have "fst ?run ! i = row_coords (events ! i)"
      using assms(1) by (simp add: apply_rows_nth fill_no_request row_coords_def)
    with out assms(2) show ?thesis by simp
  next
    case (Some k)
    from request_result[OF assms(1) Some, of g "length events" "count_missing events"]
    obtain f where f: "first_request l events k = Some f" and r: "resolve g f = ?out"
      using out by auto
    from assms(3) Some f have "paired (resolve g f)" by (simp add: entry_paired_def)
    with r have p: "paired ?out" by simp
    have "row_coords (events ! i) = (None, None)"
      using Some assms(2) by (rule request_paired_absent)
    with p show ?thesis by (auto simp: paired_cases)
  qed
qed

text \<open>
  A row without coordinates whose place an earlier row with one coordinate left
  unresolved: the cache hit gives it that row's single coordinate.
\<close>

lemma shared_entry_half_pair:
  "row_coords (rows_ystad2 ! 1) = (None, None) \<and>
   \<not> entry_paired latin1_lower geocode_lund rows_ystad2 (rows_ystad2 ! 1) \<and>
   row_coords (fst (enrich latin1_lower geocode_lund rows_ystad2) ! 1) = (None, Some 5)"
  by (simp add: pipeline_eval entry_paired_def paired_def rows_ystad2_def geocode_lund_def
           del: not_None_eq)

theorem coordinates_stay_paired_witness:
  "2 < length rows_lund \<and> paired (row_coords (rows_lund ! 2)) \<and>
   entry_paired latin1_lower geocode_lund rows_lund (rows_lund ! 2) \<and>
   paired (row_coords (fst (enrich latin1_lower geocode_lund rows_lund) ! 2)) \<and>
   row_coords (fst (enrich latin1_lower geocode_lund rows_lund) ! 2) = (Some 55.7, Some 13.2)"
proof -
  have h: "2 < length rows_lund" "paired (row_coords (rows_lund ! 2))"
    "entry_paired latin1_lower geocode_lund rows_lund (rows_lund ! 2)"
    by (simp_all add: pipeline_eval entry_paired_def paired_def rows_lund_def geocode_lund_def
                 del: not_None_eq)
  from coordinates_stay_paired[OF h] h lund_coords(2) show ?thesis by simp
qed

text \<open>
  Claim C4 as stated fails: a row that enters with a latitude and no longitude, and no
  place name, leaves the enrichment the same way.
\<close>

theorem half_pair_counterexample:
  "Latitude (fst (enrich latin1_lower geocode_lund rows_half) ! 0) = Some 1 \<and>
   Longitude (fst (enrich latin1_lower geocode_lund rows_half) ! 0) = None"
  by (simp add: pipeline_eval rows_half_def geocode_lund_def del: not_None_eq)

section \<open>Unresolved places\<close>

text \<open>
  The request that misses the cache and gets no location from the geocoder returns the
  row's own coordinates, raises no error and is counted in \<open>locations_unresolved\<close>.
\<close>

lemma unresolved_miss_keeps_row:
  assumes "request_key l r = Some k" "geo_cache c k = None"
    and "usable_place (Location r) = Some p" "try_geocode g (p @ COUNTRY_SUFFIX) = None"
  shows "fst (fill_lat_lon l g c r) = (Latitude r, Longitude r) \<and>
         locations_unresolved (stats (snd (fill_lat_lon l g c r)))
           = locations_unresolved (stats c) + 1"
  using assms
  by (auto simp: fill_lat_lon_def request_key_def Let_def split: option.splits if_splits)

text \<open>
  Claim C3. A row whose place stays unresolved should keep the coordinates it had. The
  second row of \<open>rows_ystad\<close> has latitude 7 and no longitude; its place was left
  unresolved by the first row, whose own pair went into the cache, and the cache hit
  writes that pair over the second row: the latitude is lost, the longitude is the
  first row's.
\<close>

theorem unresolved_hit_overwrites:
  "row_coords (rows_ystad ! 1) = (Some 7, None) \<and>
   request_key latin1_lower (rows_ystad ! 1) = Some (u ''ystad'') \<and>
   try_geocode geocode_lund (u ''ystad '' @ COUNTRY_SUFFIX) = None \<and>
   row_coords (fst (enrich latin1_lower geocode_lund rows_ystad) ! 1) = (None, Some 5) \<and>
   locations_unresolved (fst (snd (enrich latin1_lower geocode_lund rows_ystad))) = 1"
  by (simp add: pipeline_eval rows_ystad_def geocode_lund_def del: not_None_eq)

section \<open>\<open>clean_number\<close>\<close>













section \<open>Year labels\<close>

declare str_nat.simps [simp del]

lemma str_nat_nonempty: "str_nat n \<noteq> []"
  by (subst str_nat.simps) simp

lemma last_str_nat: "last (str_nat n) = 48 + n mod 10"
  by (subst str_nat.simps) simp

lemma butlast_str_nat: "butlast (str_nat n) = (if n < 10 then [] else str_nat (n div 10))"
  by (subst str_nat.simps) simp

lemma str_nat_inj: "str_nat m = str_nat n \<Longrightarrow> m = n"
proof (induction m arbitrary: n rule: str_nat.induct)
  case (1 m)
  from "1.prems" have "last (str_nat m) = last (str_nat n)" by simp
  then have md: "m mod 10 = n mod 10" by (simp add: last_str_nat)
  from "1.prems" have b: "butlast (str_nat m) = butlast (str_nat n)" by simp
  show ?case
  proof (cases "m < 10")
    case True
    with b have "n < 10"
      using str_nat_nonempty[of "n div 10"] by (auto simp: butlast_str_nat split: if_splits)
    with True md show ?thesis by simp
  next
    case False
    with b have n: "\<not> n < 10" and "str_nat (m div 10) = str_nat (n div 10)"
      using str_nat_nonempty[of "m div 10"] by (auto simp: butlast_str_nat split: if_splits)
    with "1.IH"[OF False] have "m div 10 = n div 10" by simp
    with md show ?thesis by (metis div_mult_mod_eq)
  qed
qed

lemma hd_str_nat_digit: "hd (str_nat n) \<ge> 48"
proof (induction n rule: str_nat.induct)
  case (1 n)
  show ?case
  proof (cases "n < 10")
    case True
    then show ?thesis by (subst str_nat.simps) simp
  next
    case False
    with 1 show ?thesis by (subst str_nat.simps) (simp add: str_nat_nonempty)
  qed
qed

lemma str_int_inj: "str_int i = str_int j \<Longrightarrow> i = j"
proof -
  assume eq: "str_int i = str_int j"
  have neq: "45 # xs \<noteq> str_nat n" for xs n
  proof
    assume "45 # xs = str_nat n"
    then have "hd (str_nat n) = 45" by (metis list.sel(1))
    with hd_str_nat_digit[of n] show False by simp
  qed
  show ?thesis
  proof (cases "i < 0")
    case True
    with eq neq have "j < 0" by (auto simp: str_int_def split: if_splits)
    with True eq have "str_nat (nat (- i)) = str_nat (nat (- j))" by (simp add: str_int_def)
    then have "nat (- i) = nat (- j)" by (rule str_nat_inj)
    with True \<open>j < 0\<close> show ?thesis by simp
  next
    case False
    with eq neq have "\<not> j < 0" by (auto simp: str_int_def split: if_splits dest: sym)
    with False eq have "str_nat (nat i) = str_nat (nat j)" by (simp add: str_int_def)
    then have "nat i = nat j" by (rule str_nat_inj)
    with False \<open>\<not> j < 0\<close> show ?thesis by simp
  qed
qed

lemma decade_label_inj: "decade_label d = decade_label d' \<Longrightarrow> d = d'"
  by (simp add: decade_label_def str_int_inj)

text \<open>In a dictionary filled in a loop with distinct keys, each key keeps its own value.\<close>

lemma foldl_upd_lookup:
  assumes "\<And>a b. f a = f b \<Longrightarrow> a = b" and "x \<in> set xs"
  shows "foldl (\<lambda>m a. m(f a \<mapsto> g a)) m0 xs (f x) = Some (g x)"
  using assms(2)
proof (induction xs rule: rev_induct)
  case Nil
  then show ?case by simp
next
  case (snoc a xs)
  show ?case
  proof (cases "f x = f a")
    case True
    with assms(1) have "x = a" by blast
    then show ?thesis by simp
  next
    case False
    with snoc.prems have "x \<in> set xs" by auto
    with snoc.IH False show ?thesis by simp
  qed
qed

lemma label_to_years_decade:
  "d \<in> set (decades ys) \<Longrightarrow>
   label_to_years ys (decade_label d) = Some (filter (\<lambda>y. d \<le> y \<and> y \<le> d + 9) ys)"
  unfolding label_to_years_def Let_def
  by (rule foldl_upd_lookup[where f = decade_label]) (auto dest: decade_label_inj)

lemma set_all_years: "set (all_years df) = {y. \<exists>e\<in>set df. year e = Some y}"
proof -
  have "set (List.map_filter year df) = {y. \<exists>e\<in>set df. year e = Some y}"
    by (force simp: List.map_filter_def image_iff)
  then show ?thesis by (simp add: all_years_def)
qed

text \<open>
  Claim C7. For every table, the label of a decade \<open>d\<close> of the data stands in
  \<open>label_to_years\<close> for exactly the years of the data between \<open>d\<close> and
  \<open>d + 9\<close>, and selecting that label alone selects exactly those years. Selecting no
  label selects all years of the data, which is not the empty list once
  \<open>min(all_years)\<close> has not raised.
\<close>

theorem decade_label_years:
  "(d \<in> set (decades (all_years df)) \<longrightarrow>
      label_to_years (all_years df) (decade_label d)
        = Some (filter (\<lambda>y. d \<le> y \<and> y \<le> d + 9) (all_years df)) \<and>
      set (selected_years (all_years df) [decade_label d])
        = {y. (\<exists>e\<in>set df. year e = Some y) \<and> d \<le> y \<and> y \<le> d + 9}) \<and>
   selected_years (all_years df) [] = all_years df \<and>
   (year_bounds (all_years df) = Inr b \<longrightarrow> selected_years (all_years df) [] \<noteq> [])"
proof (intro conjI impI)
  assume d: "d \<in> set (decades (all_years df))"
  then show l: "label_to_years (all_years df) (decade_label d)
        = Some (filter (\<lambda>y. d \<le> y \<and> y \<le> d + 9) (all_years df))"
    by (rule label_to_years_decade)
  show "set (selected_years (all_years df) [decade_label d])
        = {y. (\<exists>e\<in>set df. year e = Some y) \<and> d \<le> y \<and> y \<le> d + 9}"
    using set_all_years[of df] by (auto simp: selected_years_def get_years_def l)
next
  show "selected_years (all_years df) [] = all_years df"
    by (simp add: selected_years_def)
next
  assume "year_bounds (all_years df) = Inr b"
  then show "selected_years (all_years df) [] \<noteq> []"
    by (auto simp: selected_years_def year_bounds_def split: if_splits)
qed

lemma years_demo: "all_years df_demo = [1995, 2001, 2005]"
  by (simp add: all_years_def df_demo_def List.map_filter_def)

theorem decade_label_years_witness:
  "2000 \<in> set (decades (all_years df_demo)) \<and>
   label_to_years (all_years df_demo) (decade_label 2000) = Some [2001, 2005] \<and>
   set (selected_years (all_years df_demo) [decade_label 2000]) = {2001, 2005} \<and>
   year_bounds (all_years df_demo) = Inr (1995, 2005) \<and>
   selected_years (all_years df_demo) [] = [1995, 2001, 2005]"
proof -
  have d: "2000 \<in> set (decades (all_years df_demo))"
    unfolding years_demo by (simp add: decades_def)
  have b: "year_bounds (all_years df_demo) = Inr (1995, 2005)"
    unfolding years_demo by (simp add: year_bounds_def)
  note t = decade_label_years[of 2000 df_demo "(1995, 2005)"]
  from t d have l: "label_to_years (all_years df_demo) (decade_label 2000) = Some [2001, 2005]"
    by (simp add: years_demo)
  then have s: "set (selected_years (all_years df_demo) [decade_label 2000]) = {2001, 2005}"
    by (simp add: selected_years_def get_years_def)
  from t have e: "selected_years (all_years df_demo) [] = [1995, 2001, 2005]"
    by (simp add: years_demo)
  from d l s b e show ?thesis by blast
qed

section \<open>The queries\<close>

lemma load_demo: "load_events float_str_demo float_int_demo (Some db_demo) = Inr df_demo"
  by (simp add: load_events_def db_demo_def df_demo_def coerce_row_def notna_coords_def
                add_year_def float_str_demo_def float_int_demo_def u_def strip_def isspace_def
                Let_def del: not_None_eq)

lemma set_filtered: "set (filtered df ys ts) \<subseteq> set df"
  by (simp add: filtered_def)

lemma set_df_tl: "set (df_tl df cum y ts) \<subseteq> set df"
  by (simp add: df_tl_def)

lemma notna_add_year: "notna_coords (add_year e) = notna_coords e"
  by (simp add: notna_coords_def add_year_def)

text \<open>
  Claim C10. Every row of the table that \<open>load_events\<close> returns has a latitude
  and a longitude, and so has every row that the map filter or the time-lapse filter
  selects from it; the rows dropped are exactly those that lack one of the two after
  \<open>pd.to_numeric\<close>.
\<close>

theorem loaded_rows_have_coordinates:
  assumes "load_events ns ni db = Inr df"
  shows "(\<forall>e\<in>set df. ev_Latitude e \<noteq> None \<and> ev_Longitude e \<noteq> None) \<and>
         (\<forall>e\<in>set (filtered df ys ts). ev_Latitude e \<noteq> None \<and> ev_Longitude e \<noteq> None) \<and>
         (\<forall>e\<in>set (df_tl df cum y ts'). ev_Latitude e \<noteq> None \<and> ev_Longitude e \<noteq> None) \<and>
         (\<exists>rows. db = Some rows \<and>
            length df = length (filter notna_coords (map (coerce_row ns ni) rows)))"
proof -
  from assms obtain rows where rows: "db = Some rows"
    and df: "df = map add_year (filter notna_coords (map (coerce_row ns ni) rows))"
    by (auto simp: load_events_def split: option.splits)
  have all: "\<forall>e\<in>set df. notna_coords e"
    unfolding df by (auto simp: notna_add_year)
  then have a: "\<forall>e\<in>set df. ev_Latitude e \<noteq> None \<and> ev_Longitude e \<noteq> None"
    by (simp add: notna_coords_def)
  from a set_filtered[of df ys ts]
  have b: "\<forall>e\<in>set (filtered df ys ts). ev_Latitude e \<noteq> None \<and> ev_Longitude e \<noteq> None"
    by blast
  from a set_df_tl[of df cum y ts']
  have c: "\<forall>e\<in>set (df_tl df cum y ts'). ev_Latitude e \<noteq> None \<and> ev_Longitude e \<noteq> None"
    by blast
  have d: "\<exists>rows. db = Some rows \<and>
            length df = length (filter notna_coords (map (coerce_row ns ni) rows))"
    using rows df by simp
  from a b c d show ?thesis by blast
qed

theorem loaded_rows_have_coordinates_witness:
  "load_events float_str_demo float_int_demo (Some db_demo) = Inr df_demo \<and>
   length db_demo = 5 \<and> length df_demo = 4 \<and>
   list_all (\<lambda>e. ev_Latitude e \<noteq> None \<and> ev_Longitude e \<noteq> None) df_demo"
proof -
  have l: "length db_demo = 5" "length df_demo = 4"
    by (simp_all add: db_demo_def df_demo_def)
  from loaded_rows_have_coordinates[OF load_demo, THEN conjunct1]
  have "list_all (\<lambda>e. ev_Latitude e \<noteq> None \<and> ev_Longitude e \<noteq> None) df_demo"
    by (simp only: list_all_iff)
  with load_demo l show ?thesis by blast
qed

text \<open>
  Claim C1, as amended. With an empty list of selected types neither filter restricts
  the type: map mode returns every row whose year is among the selected years, the
  time-lapse every row whose year passes the comparison with the slider's year.
\<close>

theorem empty_selection_no_filter:
  "filtered df ys (Some []) = filter (year_isin ys) df \<and>
   df_tl df cumulative year_tl (Some []) = filter (year_cmp cumulative year_tl) df"
  by (simp add: filtered_def df_tl_def mask_def tl_mask_def cong: filter_cong)

lemmas query_eval =
  filtered_def df_tl_def mask_def tl_mask_def year_isin_def year_cmp_def sheet_isin_def
  spec_timelapse_def spec_map_mode_def u_def

text \<open>
  Claim C1 as stated fails: with no type selected, both filters still return the row of
  2001 from the table \<open>df_demo\<close>.
\<close>

theorem empty_selection_counterexample:
  "length (filtered df_demo [2001] (Some [])) = 1 \<and>
   length (df_tl df_demo False 2001 (Some [])) = 1"
  by (simp add: query_eval df_demo_def)

lemma year_le_all_years:
  "e \<in> set df \<Longrightarrow> year_isin (filter (\<lambda>y. y \<le> t) (all_years df)) e = year_cmp True t e"
  by (auto simp: year_isin_def year_cmp_def set_all_years split: option.splits)

text \<open>
  Claim C6, as amended. For a non-empty selection of types the time-lapse filter returns
  exactly the rows the specification describes: year at most the target year if
  cumulative, equal to it otherwise, and type in the selection; map mode likewise
  returns the rows with year among the selected years and type in the selection. For
  every selection, the cumulative time-lapse returns the rows that map mode returns for
  the years of the data up to the target year.
\<close>

theorem timelapse_filter:
  "(sel \<noteq> [] \<longrightarrow>
      df_tl df cumulative t (Some sel) = spec_timelapse df t cumulative (set sel) \<and>
      filtered df ys (Some sel) = spec_map_mode df (set ys) (set sel)) \<and>
   df_tl df True t ts = filtered df (filter (\<lambda>y. y \<le> t) (all_years df)) ts"
proof (intro conjI impI)
  assume "sel \<noteq> []"
  then show "df_tl df cumulative t (Some sel) = spec_timelapse df t cumulative (set sel)"
    by (auto simp: df_tl_def spec_timelapse_def tl_mask_def year_cmp_def sheet_isin_def
             split: option.splits intro!: filter_cong)
next
  assume "sel \<noteq> []"
  then show "filtered df ys (Some sel) = spec_map_mode df (set ys) (set sel)"
    by (auto simp: filtered_def spec_map_mode_def mask_def year_isin_def sheet_isin_def
             split: option.splits intro!: filter_cong)
next
  show "df_tl df True t ts = filtered df (filter (\<lambda>y. y \<le> t) (all_years df)) ts"
    unfolding df_tl_def filtered_def
    by (rule filter_cong) (simp_all add: tl_mask_def mask_def year_le_all_years)
qed

theorem timelapse_filter_witness:
  "[u ''snow''] \<noteq> [] \<and>
   df_tl df_demo True 2001 (Some [u ''snow''])
     = spec_timelapse df_demo 2001 True (set [u ''snow'']) \<and>
   length (df_tl df_demo True 2001 (Some [u ''snow''])) = 1 \<and>
   df_tl df_demo True 2001 (Some [u ''snow''])
     = filtered df_demo (filter (\<lambda>y. y \<le> 2001) (all_years df_demo)) (Some [u ''snow''])"
proof -
  have l: "length (df_tl df_demo True 2001 (Some [u ''snow''])) = 1"
    by (simp add: query_eval df_demo_def)
  have n: "[u ''snow''] \<noteq> []" by simp
  note t = timelapse_filter[of "[u ''snow'']" df_demo True 2001 "[]" "Some [u ''snow'']"]
  from t n have a: "df_tl df_demo True 2001 (Some [u ''snow''])
                    = spec_timelapse df_demo 2001 True (set [u ''snow''])" by blast
  from t have b: "df_tl df_demo True 2001 (Some [u ''snow''])
                  = filtered df_demo (filter (\<lambda>y. y \<le> 2001) (all_years df_demo))
                      (Some [u ''snow''])"
    by blast
  from n a l b show ?thesis by blast
qed

text \<open>
  Claim C6 as stated fails for the empty selection: the filter returns rows, whereas no
  row has its type in the empty selection.
\<close>

theorem timelapse_empty_selection_counterexample:
  "df_tl df_demo True 2005 (Some []) \<noteq> spec_timelapse df_demo 2005 True (set [])"
  by (simp add: query_eval df_demo_def)

end
